theory Spec2Isabelle
  imports Main "HOL-Library.Word"
begin

section \<open>Shared vocabulary of the two BLE Uart roles\<close>

text \<open>
  The repository holds two MicroPython scripts: \<^verbatim>\<open>BLEUartPeripheral.py\<close> (class
  \<^verbatim>\<open>BLEperipheral\<close>) and \<^verbatim>\<open>BLEUartCentral.py\<close> (class \<^verbatim>\<open>BLECentral\<close>).
  Both are driven by the platform BLE stack, which is not part of the repository: the
  stack delivers events to \<^verbatim>\<open>_irq\<close> and accepts requests (\<^verbatim>\<open>gap_scan\<close>,
  \<^verbatim>\<open>gatts_notify\<close>, ...). The embedding makes both directions explicit:
  an event is a value of a datatype, and every request, callback invocation and
  \<^verbatim>\<open>print\<close> of the source is an entry of the effect list a function returns, in
  the order the source performs them. An object's attributes are a record that is
  passed in and returned updated.

  A Python \<^verbatim>\<open>bytes\<close>/\<^verbatim>\<open>bytearray\<close> value is a list of 8-bit characters, a
  128-bit UUID is a \<open>128 word\<close>, the handles and address types the stack reports are
  natural numbers, and an attribute that may hold \<^verbatim>\<open>None\<close> is an \<open>option\<close>.
  A callback is an opaque callable of the application; it is represented by an
  identifier, its invocation is an effect, and (being a function object) it is truthy.
\<close>

type_synonym bytes = string
type_synonym uuid = "128 word"
type_synonym callback = nat

text \<open>Python truthiness of an attribute that holds \<^verbatim>\<open>None\<close> or an integer:
  \<^verbatim>\<open>None\<close> and \<^verbatim>\<open>0\<close> are falsy.\<close>

fun truthy_int :: "nat option \<Rightarrow> bool" where
  "truthy_int None = False"
| "truthy_int (Some n) = (n \<noteq> 0)"

text \<open>Python truthiness of an attribute that holds \<^verbatim>\<open>None\<close> or a bytes object:
  \<^verbatim>\<open>None\<close> and the empty bytes object are falsy.\<close>

fun truthy_bytes :: "bytes option \<Rightarrow> bool" where
  "truthy_bytes None = False"
| "truthy_bytes (Some b) = (b \<noteq> [])"

text \<open>
  Python slicing never raises: an index is clamped to the sequence, a negative index
  counts from the end. \<open>py_index n i\<close> is the position the index \<open>i\<close> denotes in a
  sequence of length \<open>n\<close>; \<open>py_slice xs lo hi\<close> is \<^verbatim>\<open>xs[lo:hi]\<close> and
  \<open>py_slice_from xs lo\<close> is \<^verbatim>\<open>xs[lo:]\<close>.
\<close>

definition py_index :: "nat \<Rightarrow> int \<Rightarrow> nat" where
  "py_index n i = (if i < 0 then nat (max 0 (int n + i)) else min n (nat i))"

definition py_slice :: "'a list \<Rightarrow> int \<Rightarrow> int \<Rightarrow> 'a list" where
  "py_slice xs lo hi =
     (let l = py_index (length xs) lo; h = py_index (length xs) hi
      in take (h - l) (drop l xs))"

definition py_slice_from :: "'a list \<Rightarrow> int \<Rightarrow> 'a list" where
  "py_slice_from xs lo = drop (py_index (length xs) lo) xs"

section \<open>The Peripheral (\<^verbatim>\<open>BLEUartPeripheral.py\<close>)\<close>

text \<open>
  The attributes of a \<^verbatim>\<open>BLEperipheral\<close> object. \<^verbatim>\<open>_connections\<close> is a Python
  set; it is kept as a list without duplicates (\<open>List.insert\<close> adds, \<open>removeAll\<close>
  removes), and the order in which \<^verbatim>\<open>write\<close> walks it is the list's order. Python
  leaves the iteration order of a set open, and no theorem below depends on it.
\<close>

record peripheral =
  p_tx_handle :: nat
  p_rx_handle :: nat
  connections :: "nat list"
  rx_buffer :: bytes
  handler :: "callback option"
  payload :: bytes

text \<open>The events \<^verbatim>\<open>BLEperipheral._irq\<close> has a branch for, with their payloads
  (\<^verbatim>\<open>_IRQ_CENTRAL_CONNECT = 1\<close>, \<^verbatim>\<open>_IRQ_CENTRAL_DISCONNECT = 2\<close>,
  \<^verbatim>\<open>_IRQ_GATTS_WRITE = 3\<close>, \<^verbatim>\<open>_IRQ_MTU_EXCHANGED = 21\<close>); \<open>P_IRQ_OTHER\<close>
  is any event code without a branch.\<close>

datatype p_event =
  IRQ_CENTRAL_CONNECT nat nat bytes
| IRQ_CENTRAL_DISCONNECT nat nat bytes
| IRQ_GATTS_WRITE nat nat
| P_IRQ_MTU_EXCHANGED
| P_IRQ_OTHER nat

datatype p_message =
  Msg_New_connection nat
| Msg_Disconnected nat
| Msg_P_maximum_message_size

datatype p_effect =
  P_Print p_message
| GapAdvertise nat bytes bool
| GattsRead nat
| HandlerCall callback
| GattsNotify nat nat bytes
| P_GapDisconnect nat

definition BLEperipheral_advertise :: "peripheral \<Rightarrow> p_effect list" where
  "BLEperipheral_advertise p = [GapAdvertise 500000 (payload p) True]"

text \<open>
  \<^verbatim>\<open>_irq(event, data)\<close>. The bytes \<^verbatim>\<open>self._ble.gatts_read(self._rx_handle)\<close>
  returns are the stack's; the function \<open>gatts_read\<close> (from a value handle to the
  bytes stored there at the time of the event) is a parameter.
\<close>

fun BLEperipheral_irq ::
  "(nat \<Rightarrow> bytes) \<Rightarrow> peripheral \<Rightarrow> p_event \<Rightarrow> peripheral \<times> p_effect list" where
  "BLEperipheral_irq gatts_read p (IRQ_CENTRAL_CONNECT conn_h at a) =
     (p\<lparr>connections := List.insert conn_h (connections p)\<rparr>,
      [P_Print (Msg_New_connection conn_h)])"
| "BLEperipheral_irq gatts_read p (IRQ_CENTRAL_DISCONNECT conn_h at a) =
     ((if conn_h \<in> set (connections p)
       then p\<lparr>connections := removeAll conn_h (connections p)\<rparr> else p),
      P_Print (Msg_Disconnected conn_h) # BLEperipheral_advertise p)"
| "BLEperipheral_irq gatts_read p (IRQ_GATTS_WRITE conn_h value_handle) =
     (if conn_h \<in> set (connections p) \<and> value_handle = p_rx_handle p
      then (p\<lparr>rx_buffer := rx_buffer p @ gatts_read (p_rx_handle p)\<rparr>,
            GattsRead (p_rx_handle p) #
              (case handler p of None \<Rightarrow> [] | Some h \<Rightarrow> [HandlerCall h]))
      else (p, []))"
| "BLEperipheral_irq gatts_read p P_IRQ_MTU_EXCHANGED =
     (p, [P_Print Msg_P_maximum_message_size])"
| "BLEperipheral_irq gatts_read p (P_IRQ_OTHER n) = (p, [])"

definition BLEperipheral_any :: "peripheral \<Rightarrow> nat" where
  "BLEperipheral_any p = length (rx_buffer p)"

text \<open>
  \<^verbatim>\<open>read(sz=None)\<close>: \<^verbatim>\<open>if not sz: sz = len(self._rx_buffer)\<close> replaces a missing
  size and the size \<^verbatim>\<open>0\<close> alike; the two slices then split the buffer. The result
  is the returned bytes and the updated object.
\<close>

definition BLEperipheral_read :: "peripheral \<Rightarrow> int option \<Rightarrow> bytes \<times> peripheral" where
  "BLEperipheral_read p sz =
     (let sz' = (case sz of None \<Rightarrow> int (length (rx_buffer p))
                 | Some k \<Rightarrow> if k = 0 then int (length (rx_buffer p)) else k);
          result = py_slice (rx_buffer p) 0 sz'
      in (result, p\<lparr>rx_buffer := py_slice_from (rx_buffer p) sz'\<rparr>))"

text \<open>\<^verbatim>\<open>write(data)\<close>: one \<^verbatim>\<open>gatts_notify\<close> per element of
  \<^verbatim>\<open>self._connections\<close>; no attribute is assigned.\<close>

definition BLEperipheral_write :: "peripheral \<Rightarrow> bytes \<Rightarrow> peripheral \<times> p_effect list" where
  "BLEperipheral_write p data =
     (p, map (\<lambda>conn_h. GattsNotify conn_h (p_tx_handle p) data) (connections p))"

definition BLEperipheral_close :: "peripheral \<Rightarrow> peripheral \<times> p_effect list" where
  "BLEperipheral_close p =
     (p\<lparr>connections := []\<rparr>, map P_GapDisconnect (connections p))"

definition BLEperipheral_is_connected :: "peripheral \<Rightarrow> bool" where
  "BLEperipheral_is_connected p = (length (connections p) > 0)"

text \<open>The object \<^verbatim>\<open>__init__\<close> leaves behind, for the two value handles
  \<^verbatim>\<open>gatts_register_services\<close> returned and the advertising payload built for the
  name: no connection, an empty buffer, no handler.\<close>

definition BLEperipheral_init :: "nat \<Rightarrow> nat \<Rightarrow> bytes \<Rightarrow> peripheral" where
  "BLEperipheral_init tx rx adv =
     \<lparr>p_tx_handle = tx, p_rx_handle = rx, connections = [], rx_buffer = [],
      handler = None, payload = adv\<rparr>"

section \<open>The Central (\<^verbatim>\<open>BLEUartCentral.py\<close>)\<close>

definition TARGET_PERIPHERAL_NAME :: string where
  "TARGET_PERIPHERAL_NAME = ''ID000001''"

definition NBCHAR :: nat where
  "NBCHAR = 8"

definition T_WAIT :: int where
  "T_WAIT = 100"

definition ADV_IND :: nat where
  "ADV_IND = 0"

definition ADV_DIRECT_IND :: nat where
  "ADV_DIRECT_IND = 1"

definition UART_SERVICE_UUID :: uuid where
  "UART_SERVICE_UUID = 0x6E400001B5A3F393E0A9E50E24DCCA9E"

definition UART_RX_CHAR_UUID :: uuid where
  "UART_RX_CHAR_UUID = 0x6E400002B5A3F393E0A9E50E24DCCA9E"

definition UART_TX_CHAR_UUID :: uuid where
  "UART_TX_CHAR_UUID = 0x6E400003B5A3F393E0A9E50E24DCCA9E"

text \<open>The attributes \<^verbatim>\<open>_reset\<close> assigns; each holds \<^verbatim>\<open>None\<close> until set. Of the
  class, \<^verbatim>\<open>_reset\<close>, \<^verbatim>\<open>_irq\<close>, \<^verbatim>\<open>is_connected\<close>, \<^verbatim>\<open>scan\<close>,
  \<^verbatim>\<open>connect\<close>, \<^verbatim>\<open>disconnect\<close> and \<^verbatim>\<open>wait_for_connection\<close> are embedded;
  \<^verbatim>\<open>write\<close>, \<^verbatim>\<open>on_notify\<close> and the demo loop play no part in the properties
  below.\<close>

record central =
  name :: "string option"
  addr_type :: "nat option"
  addr :: "bytes option"
  scan_callback :: "callback option"
  conn_callback :: "callback option"
  read_callback :: "callback option"
  notify_callback :: "callback option"
  conn_handle :: "nat option"
  start_handle :: "nat option"
  end_handle :: "nat option"
  tx_handle :: "nat option"
  rx_handle :: "nat option"

text \<open>
  The events \<^verbatim>\<open>BLECentral._irq\<close> has a branch for, with the payload each branch
  unpacks from \<^verbatim>\<open>data\<close> (the two \<^verbatim>\<open>..._DONE\<close> discovery events and
  \<^verbatim>\<open>_IRQ_MTU_EXCHANGED\<close> never read their payload). The event codes are 5, 6, 7,
  8, 9, 10, 11, 12, 17, 18 and 21 in this order; \<open>IRQ_OTHER\<close> is any other code.
\<close>

datatype event =
  IRQ_SCAN_RESULT nat bytes nat int bytes
| IRQ_SCAN_DONE
| IRQ_advertising_payload_CONNECT nat nat bytes
| IRQ_advertising_payload_DISCONNECT nat nat bytes
| IRQ_GATTC_SERVICE_RESULT nat nat nat uuid
| IRQ_GATTC_SERVICE_DONE
| IRQ_GATTC_CHARACTERISTIC_RESULT nat nat nat nat uuid
| IRQ_GATTC_CHARACTERISTIC_DONE
| IRQ_GATTC_WRITE_DONE nat nat nat
| IRQ_GATTC_NOTIFY nat nat bytes
| IRQ_MTU_EXCHANGED
| IRQ_OTHER nat

text \<open>The lines \<^verbatim>\<open>_irq\<close> and \<^verbatim>\<open>disconnect\<close> print, in source order.\<close>

datatype message =
  Msg_Scan_success
| Msg_Scan_failure
| Msg_Connected bytes
| Msg_Disconnected_from bytes
| Msg_Uart_service_unreachable
| Msg_Uart_characteristic_RX_not_discoverable
| Msg_writing_in_RX_done
| Msg_maximum_message_size
| Msg_Disconnected_success

text \<open>
  What the Central does to the outside: requests to the stack (with the arguments the
  source passes, so a connection handle that is read from the attribute is an
  \<open>option\<close>), invocations of the three stored callbacks with their arguments, and
  printed lines.
\<close>

datatype effect =
  GapScan nat nat nat bool
| GapScanStop
| GapConnect nat bytes
| GapDisconnect nat
| GattcExchangeMtu nat
| GattcDiscoverServices nat
| GattcDiscoverCharacteristics "nat option" nat nat
| ScanCallback callback "nat option" "bytes option" "string option"
| ConnCallback callback
| NotifyCallback callback bytes
| Print message

text \<open>
  The source wraps \<^verbatim>\<open>gap_scan\<close>, \<^verbatim>\<open>gap_connect\<close> and \<^verbatim>\<open>gap_disconnect\<close> in
  \<^verbatim>\<open>try: ... except OSError: pass\<close>; the outcome of such a request is an argument
  of the model.
\<close>

datatype transport_outcome = Returned | Raised_OSError

text \<open>
  The two decoders imported from the module \<^verbatim>\<open>ble_advertising\<close>, which is not
  part of the repository, are parameters: the service identifiers an advertising
  payload declares, and the name it carries (the empty string when it carries none).
\<close>

record ble_advertising =
  decode_services :: "bytes \<Rightarrow> uuid list"
  decode_name :: "bytes \<Rightarrow> string"

definition BLECentral_reset :: "central \<Rightarrow> central" where
  "BLECentral_reset c =
     c\<lparr>name := None, addr_type := None, addr := None,
       scan_callback := None, conn_callback := None, read_callback := None,
       notify_callback := None,
       conn_handle := None, start_handle := None, end_handle := None,
       tx_handle := None, rx_handle := None\<rparr>"

text \<open>The object after \<^verbatim>\<open>__init__\<close>, which ends in \<^verbatim>\<open>_reset\<close>.\<close>

definition BLECentral_init :: central where
  "BLECentral_init =
     \<lparr>name = None, addr_type = None, addr = None,
      scan_callback = None, conn_callback = None, read_callback = None,
      notify_callback = None,
      conn_handle = None, start_handle = None, end_handle = None,
      tx_handle = None, rx_handle = None\<rparr>"

text \<open>\<^verbatim>\<open>decode_name(adv_data) or "?"\<close>\<close>

definition name_or_unknown :: "ble_advertising \<Rightarrow> bytes \<Rightarrow> string" where
  "name_or_unknown codec adv_data =
     (if decode_name codec adv_data = [] then ''?'' else decode_name codec adv_data)"

fun BLECentral_irq :: "ble_advertising \<Rightarrow> central \<Rightarrow> event \<Rightarrow> central \<times> effect list" where
  "BLECentral_irq codec c (IRQ_SCAN_RESULT at a adv_type rssi adv_data) =
     (if (adv_type = ADV_IND \<or> adv_type = ADV_DIRECT_IND)
         \<and> UART_SERVICE_UUID \<in> set (decode_services codec adv_data)
      then
        (let c1 = c\<lparr>name := Some (name_or_unknown codec adv_data)\<rparr>
         in if take NBCHAR (name_or_unknown codec adv_data) = take NBCHAR TARGET_PERIPHERAL_NAME
            then (c1\<lparr>addr_type := Some at, addr := Some a,
                     name := Some (name_or_unknown codec adv_data)\<rparr>,
                  [GapScanStop])
            else (c1, []))
      else (c, []))"
| "BLECentral_irq codec c IRQ_SCAN_DONE =
     (case scan_callback c of
        None \<Rightarrow> (c, [])
      | Some cb \<Rightarrow>
          if truthy_bytes (addr c)
          then (c\<lparr>scan_callback := None\<rparr>,
                [ScanCallback cb (addr_type c) (addr c) (name c), Print Msg_Scan_success])
          else (c, [ScanCallback cb None None None, Print Msg_Scan_failure]))"
| "BLECentral_irq codec c (IRQ_advertising_payload_CONNECT conn_h at a) =
     (if Some at = addr_type c \<and> Some a = addr c
      then (c\<lparr>conn_handle := Some conn_h\<rparr>,
            [GattcExchangeMtu conn_h, GattcDiscoverServices conn_h, Print (Msg_Connected a)])
      else (c, [Print (Msg_Connected a)]))"
| "BLECentral_irq codec c (IRQ_advertising_payload_DISCONNECT conn_h at a) =
     ((if Some conn_h = conn_handle c then BLECentral_reset c else c),
      [Print (Msg_Disconnected_from a)])"
| "BLECentral_irq codec c (IRQ_GATTC_SERVICE_RESULT conn_h start_h end_h u) =
     (if Some conn_h = conn_handle c \<and> u = UART_SERVICE_UUID
      then (c\<lparr>start_handle := Some start_h, end_handle := Some end_h\<rparr>, [])
      else (c, []))"
| "BLECentral_irq codec c IRQ_GATTC_SERVICE_DONE =
     (if truthy_int (start_handle c) \<and> truthy_int (end_handle c)
      then (c, [GattcDiscoverCharacteristics (conn_handle c)
                  (the (start_handle c)) (the (end_handle c))])
      else (c, [Print Msg_Uart_service_unreachable]))"
| "BLECentral_irq codec c (IRQ_GATTC_CHARACTERISTIC_RESULT conn_h def_h value_h props u) =
     (let c1 = (if Some conn_h = conn_handle c \<and> u = UART_RX_CHAR_UUID
                then c\<lparr>rx_handle := Some value_h\<rparr> else c);
          c2 = (if Some conn_h = conn_handle c1 \<and> u = UART_TX_CHAR_UUID
                then c1\<lparr>tx_handle := Some value_h\<rparr> else c1)
      in (c2, []))"
| "BLECentral_irq codec c IRQ_GATTC_CHARACTERISTIC_DONE =
     (if tx_handle c \<noteq> None \<and> rx_handle c \<noteq> None
      then (c, (case conn_callback c of None \<Rightarrow> [] | Some cb \<Rightarrow> [ConnCallback cb]))
      else (c, [Print Msg_Uart_characteristic_RX_not_discoverable]))"
| "BLECentral_irq codec c (IRQ_GATTC_WRITE_DONE conn_h value_h status) =
     (c, [Print Msg_writing_in_RX_done])"
| "BLECentral_irq codec c (IRQ_GATTC_NOTIFY conn_h value_h notify_data) =
     (if Some conn_h = conn_handle c \<and> Some value_h = tx_handle c
      then (c, (case notify_callback c of None \<Rightarrow> []
                | Some cb \<Rightarrow> [NotifyCallback cb notify_data]))
      else (c, []))"
| "BLECentral_irq codec c IRQ_MTU_EXCHANGED = (c, [Print Msg_maximum_message_size])"
| "BLECentral_irq codec c (IRQ_OTHER n) = (c, [])"

definition BLECentral_is_connected :: "central \<Rightarrow> bool" where
  "BLECentral_is_connected c =
     (conn_handle c \<noteq> None \<and> tx_handle c \<noteq> None \<and> rx_handle c \<noteq> None)"

text \<open>\<^verbatim>\<open>scan(callback=None)\<close>; an \<^verbatim>\<open>OSError\<close> of \<^verbatim>\<open>gap_scan\<close> is swallowed.\<close>

definition BLECentral_scan ::
  "transport_outcome \<Rightarrow> central \<Rightarrow> callback option \<Rightarrow> central \<times> effect list" where
  "BLECentral_scan outcome c callback =
     (c\<lparr>addr_type := None, addr := None, scan_callback := callback\<rparr>,
      [GapScan 2000 30000 30000 True])"

text \<open>\<^verbatim>\<open>connect(addr_type=None, addr=None, callback=None)\<close>: the returned boolean,
  the updated object and the requests issued.\<close>

definition BLECentral_connect ::
  "transport_outcome \<Rightarrow> central \<Rightarrow> nat option \<Rightarrow> bytes option \<Rightarrow> callback option
     \<Rightarrow> bool \<times> central \<times> effect list" where
  "BLECentral_connect outcome c at a callback =
     (let c1 = (if at \<noteq> None \<and> a \<noteq> None then c\<lparr>addr_type := at, addr := a\<rparr> else c);
          c2 = c1\<lparr>conn_callback := callback\<rparr>
      in if addr_type c2 = None \<or> addr c2 = None
         then (False, c2, [])
         else (True, c2, [GapConnect (the (addr_type c2)) (the (addr c2))]))"

text \<open>
  \<^verbatim>\<open>disconnect()\<close>: \<^verbatim>\<open>if not self._conn_handle: return\<close> leaves on a handle that is
  \<^verbatim>\<open>None\<close> and on the handle \<^verbatim>\<open>0\<close>; otherwise the request is issued, the
  success line is printed when the request did not raise, and \<^verbatim>\<open>_reset\<close> runs.
\<close>

definition BLECentral_disconnect ::
  "transport_outcome \<Rightarrow> central \<Rightarrow> central \<times> effect list" where
  "BLECentral_disconnect outcome c =
     (if \<not> truthy_int (conn_handle c) then (c, [])
      else (BLECentral_reset c,
            GapDisconnect (the (conn_handle c)) #
              (case outcome of Returned \<Rightarrow> [Print Msg_Disconnected_success]
               | Raised_OSError \<Rightarrow> [])))"

text \<open>
  The clock of \<^verbatim>\<open>wait_for_connection\<close>. MicroPython's \<^verbatim>\<open>time.ticks_ms()\<close> counts
  milliseconds modulo \<open>2 ^ 30\<close>, and \<^verbatim>\<open>time.ticks_diff(a, b)\<close> is the signed
  difference of two readings on that ring, in \<open>[- 2 ^ 29, 2 ^ 29)\<close>.
\<close>

definition TICKS_PERIOD :: int where
  "TICKS_PERIOD = 2 ^ 30"

definition ticks_diff :: "int \<Rightarrow> int \<Rightarrow> int" where
  "ticks_diff a b = ((a - b + TICKS_PERIOD div 2) mod TICKS_PERIOD) - TICKS_PERIOD div 2"

text \<open>
  The loop \<^verbatim>\<open>while time.ticks_diff(time.ticks_ms(), t0) < timeout_ms:
  time.sleep_ms(_T_WAIT)\<close> followed by \<^verbatim>\<open>return False\<close>. \<open>now\<close> is the reading of
  the clock at the loop test; a sleep advances it by \<open>T_WAIT\<close>. The loop may run
  forever, so it takes fuel: \<open>None\<close> means the loop was still running when the fuel
  ran out.
\<close>

fun wait_loop :: "nat \<Rightarrow> int \<Rightarrow> int \<Rightarrow> int \<Rightarrow> bool option" where
  "wait_loop 0 t0 now timeout_ms = None"
| "wait_loop (Suc fuel) t0 now timeout_ms =
     (if ticks_diff now t0 < timeout_ms
      then wait_loop fuel t0 ((now + T_WAIT) mod TICKS_PERIOD) timeout_ms
      else Some False)"

text \<open>\<^verbatim>\<open>wait_for_connection(status, timeout_ms)\<close>, entered when the clock reads
  \<open>t0\<close>. Neither the object nor \<open>status\<close> is read by the source.\<close>

definition BLECentral_wait_for_connection ::
  "nat \<Rightarrow> int \<Rightarrow> central \<Rightarrow> bool \<Rightarrow> int \<Rightarrow> bool option" where
  "BLECentral_wait_for_connection fuel t0 c status timeout_ms =
     wait_loop fuel t0 t0 timeout_ms"

text \<open>A decoder that finds neither a service nor a name in any payload; it stands in
  where the events at hand carry no advertising payload.\<close>

definition no_advertising :: ble_advertising where
  "no_advertising = \<lparr>decode_services = (\<lambda>adv_data. []), decode_name = (\<lambda>adv_data. [])\<rparr>"


text \<open>
  The stack delivers its events one at a time to \<^verbatim>\<open>_irq\<close>, each call running to
  completion before the next: \<open>BLECentral_run\<close> feeds a list of events to
  \<open>BLECentral_irq\<close> in order and collects the effects.
\<close>

fun BLECentral_run ::
  "ble_advertising \<Rightarrow> central \<Rightarrow> event list \<Rightarrow> central \<times> effect list" where
  "BLECentral_run codec c [] = (c, [])"
| "BLECentral_run codec c (ev # evs) =
     (case BLECentral_irq codec c ev of
        (c1, out1) \<Rightarrow>
          (case BLECentral_run codec c1 evs of (c2, out2) \<Rightarrow> (c2, out1 @ out2)))"

text \<open>The events that neither open nor close a session: all but the connect and the
  disconnect event.\<close>

fun within_session :: "event \<Rightarrow> bool" where
  "within_session (IRQ_advertising_payload_CONNECT conn_h at a) = False"
| "within_session (IRQ_advertising_payload_DISCONNECT conn_h at a) = False"
| "within_session ev = True"

section \<open>Properties of the Peripheral\<close>

subsection \<open>Slices and the connection registry\<close>

lemma py_slice_prefix: "py_slice xs 0 i = take (py_index (length xs) i) xs"
  by (simp add: py_slice_def py_index_def)

lemma py_slice_split: "py_slice xs 0 i @ py_slice_from xs i = xs"
  by (simp add: py_slice_prefix py_slice_from_def)

lemma py_index_negative: "i < 0 \<Longrightarrow> py_index n i = n - nat (- i)"
  by (simp add: py_index_def max_def) linarith

lemma read_splits_buffer:
  "fst (BLEperipheral_read p sz) @ rx_buffer (snd (BLEperipheral_read p sz)) = rx_buffer p"
  by (simp add: BLEperipheral_read_def Let_def py_slice_split)

lemma read_changes_buffer_only:
  "snd (BLEperipheral_read p sz) = p\<lparr>rx_buffer := rx_buffer (snd (BLEperipheral_read p sz))\<rparr>"
  by (simp add: BLEperipheral_read_def Let_def)

lemma read_positive:
  "0 < k \<Longrightarrow> fst (BLEperipheral_read p (Some k)) = take (nat k) (rx_buffer p)"
  by (simp add: BLEperipheral_read_def Let_def py_slice_prefix py_index_def min_def)

lemma read_negative:
  "k < 0 \<Longrightarrow>
     fst (BLEperipheral_read p (Some k)) = take (length (rx_buffer p) - nat (- k)) (rx_buffer p)"
  by (simp add: BLEperipheral_read_def Let_def py_slice_prefix py_index_negative)

lemma read_unspecified_or_zero:
  "sz = None \<or> sz = Some 0 \<Longrightarrow> BLEperipheral_read p sz = (rx_buffer p, p\<lparr>rx_buffer := []\<rparr>)"
  by (auto simp add: BLEperipheral_read_def Let_def py_slice_prefix py_slice_from_def py_index_def)

lemma irq_only_appends: "\<exists>bs. rx_buffer (fst (BLEperipheral_irq g p ev)) = rx_buffer p @ bs"
  by (cases ev) auto

lemma connections_distinct_init: "distinct (connections (BLEperipheral_init tx rx adv))"
  by (simp add: BLEperipheral_init_def)

lemma connections_distinct_irq:
  "distinct (connections p) \<Longrightarrow> distinct (connections (fst (BLEperipheral_irq g p ev)))"
  by (cases ev) (auto simp: distinct_removeAll)

lemma count_list_map_inj:
  "distinct xs \<Longrightarrow> inj f \<Longrightarrow> count_list (map f xs) (f x) = (if x \<in> set xs then 1 else 0)"
  by (induction xs) (auto simp add: inj_eq)

subsection \<open>The message buffer\<close>

text \<open>
  C2, as stated, fails: \<^verbatim>\<open>read(0)\<close> on the buffer \<^verbatim>\<open>"abc"\<close> does not return the
  prefix of length 0. \<^verbatim>\<open>if not sz\<close> takes the size 0 for a missing size, so the call
  returns all three bytes.
\<close>

theorem read_zero_counterexample:
  "fst (BLEperipheral_read ((BLEperipheral_init 1 2 [])\<lparr>rx_buffer := ''abc''\<rparr>) (Some 0)) = ''abc''
   \<and> fst (BLEperipheral_read ((BLEperipheral_init 1 2 [])\<lparr>rx_buffer := ''abc''\<rparr>) (Some 0))
       \<noteq> take 0 ''abc''"
  by (simp add: BLEperipheral_read_def BLEperipheral_init_def py_slice_def py_index_def)

text \<open>
  C2, amended. The buffer is first-in first-out and a read consumes a prefix. Two inbound
  writes from a registered session to the RX handle append their bytes in arrival order
  (\<^verbatim>\<open>"ab"\<close> then \<^verbatim>\<open>"cd"\<close> add \<^verbatim>\<open>"abcd"\<close>). For every buffer and every size,
  \<^verbatim>\<open>read\<close> returns a prefix and leaves exactly the rest queued in its order: the
  returned bytes followed by the new buffer are the old buffer, and no other attribute
  changes. The prefix is the first \<open>sz\<close> bytes (all of them when there are fewer) for
  \<open>sz > 0\<close>, the whole buffer when the size is missing or 0, and all but the last
  \<open>- sz\<close> bytes for \<open>sz < 0\<close>. No event does anything to the buffer but append to it,
  and \<^verbatim>\<open>write\<close> leaves it alone.
\<close>

theorem rx_buffer_fifo_read_consumes_prefix:
  "(conn_h \<in> set (connections p) \<longrightarrow>
      rx_buffer (fst (BLEperipheral_irq g2
          (fst (BLEperipheral_irq g1 p (IRQ_GATTS_WRITE conn_h (p_rx_handle p))))
          (IRQ_GATTS_WRITE conn_h (p_rx_handle p))))
        = rx_buffer p @ g1 (p_rx_handle p) @ g2 (p_rx_handle p))
   \<and> fst (BLEperipheral_read p sz) @ rx_buffer (snd (BLEperipheral_read p sz)) = rx_buffer p
   \<and> snd (BLEperipheral_read p sz) = p\<lparr>rx_buffer := rx_buffer (snd (BLEperipheral_read p sz))\<rparr>
   \<and> (0 < k \<longrightarrow> fst (BLEperipheral_read p (Some k)) = take (nat k) (rx_buffer p))
   \<and> (k < 0 \<longrightarrow> fst (BLEperipheral_read p (Some k))
                  = take (length (rx_buffer p) - nat (- k)) (rx_buffer p))
   \<and> BLEperipheral_read p None = (rx_buffer p, p\<lparr>rx_buffer := []\<rparr>)
   \<and> BLEperipheral_read p (Some 0) = (rx_buffer p, p\<lparr>rx_buffer := []\<rparr>)
   \<and> (\<exists>bs. rx_buffer (fst (BLEperipheral_irq g p ev)) = rx_buffer p @ bs)
   \<and> rx_buffer (fst (BLEperipheral_write p d)) = rx_buffer p"
proof -
  have writes: "conn_h \<in> set (connections p) \<longrightarrow>
      rx_buffer (fst (BLEperipheral_irq g2
          (fst (BLEperipheral_irq g1 p (IRQ_GATTS_WRITE conn_h (p_rx_handle p))))
          (IRQ_GATTS_WRITE conn_h (p_rx_handle p))))
        = rx_buffer p @ g1 (p_rx_handle p) @ g2 (p_rx_handle p)"
    by simp
  have wr: "rx_buffer (fst (BLEperipheral_write p d)) = rx_buffer p"
    by (simp add: BLEperipheral_write_def)
  from writes read_splits_buffer [of p sz] read_changes_buffer_only [of p sz]
    read_positive [of k p] read_negative [of k p]
    read_unspecified_or_zero [of None p] read_unspecified_or_zero [of "Some 0" p]
    irq_only_appends [of g p ev] wr
  show ?thesis by blast
qed

theorem rx_buffer_fifo_read_consumes_prefix_witness:
  "7 \<in> set (connections ((BLEperipheral_init 1 2 [])\<lparr>connections := [7]\<rparr>))
   \<and> rx_buffer (fst (BLEperipheral_irq (\<lambda>h. ''cd'')
          (fst (BLEperipheral_irq (\<lambda>h. ''ab'') ((BLEperipheral_init 1 2 [])\<lparr>connections := [7]\<rparr>)
             (IRQ_GATTS_WRITE 7 2)))
          (IRQ_GATTS_WRITE 7 2))) = ''abcd''
   \<and> (0::int) < 1
   \<and> fst (BLEperipheral_read ((BLEperipheral_init 1 2 [])\<lparr>rx_buffer := ''abcd''\<rparr>) (Some 1)) = ''a''
   \<and> rx_buffer (snd (BLEperipheral_read ((BLEperipheral_init 1 2 [])\<lparr>rx_buffer := ''abcd''\<rparr>) (Some 1)))
       = ''bcd''
   \<and> (-1::int) < 0
   \<and> fst (BLEperipheral_read ((BLEperipheral_init 1 2 [])\<lparr>rx_buffer := ''abcd''\<rparr>) (Some (-1))) = ''abc''
   \<and> fst (BLEperipheral_read ((BLEperipheral_init 1 2 [])\<lparr>rx_buffer := ''abcd''\<rparr>) None) = ''abcd''"
proof -
  let ?p = "(BLEperipheral_init 1 2 [])\<lparr>connections := [7]\<rparr>"
  let ?q = "(BLEperipheral_init 1 2 [])\<lparr>rx_buffer := ''abcd''\<rparr>"
  have rx: "p_rx_handle ?p = 2" and buf: "rx_buffer ?p = []" and mem: "7 \<in> set (connections ?p)"
    by (simp_all add: BLEperipheral_init_def)
  have qbuf: "rx_buffer ?q = ''abcd''"
    by simp
  note a = rx_buffer_fifo_read_consumes_prefix
    [of 7 ?p "\<lambda>h. ''cd''" "\<lambda>h. ''ab''" None 1 "\<lambda>h. []" P_IRQ_MTU_EXCHANGED "[]"]
  note b = rx_buffer_fifo_read_consumes_prefix
    [of 7 ?q "\<lambda>h. ''cd''" "\<lambda>h. ''ab''" "Some 1" 1 "\<lambda>h. []" P_IRQ_MTU_EXCHANGED "[]"]
  note c = rx_buffer_fifo_read_consumes_prefix
    [of 7 ?q "\<lambda>h. ''cd''" "\<lambda>h. ''ab''" None "- 1" "\<lambda>h. []" P_IRQ_MTU_EXCHANGED "[]"]
  have w: "rx_buffer (fst (BLEperipheral_irq (\<lambda>h. ''cd'')
          (fst (BLEperipheral_irq (\<lambda>h. ''ab'') ?p (IRQ_GATTS_WRITE 7 2)))
          (IRQ_GATTS_WRITE 7 2))) = ''abcd''"
    using a mem by (simp only: rx buf) simp
  have r1: "fst (BLEperipheral_read ?q (Some 1)) = ''a''"
    using b by (simp only: qbuf) simp
  have r2: "rx_buffer (snd (BLEperipheral_read ?q (Some 1))) = ''bcd''"
    using b r1 by (simp only: qbuf) simp
  have r3: "fst (BLEperipheral_read ?q (Some (-1))) = ''abc''"
    using c by (simp only: qbuf) simp
  have r4: "fst (BLEperipheral_read ?q None) = ''abcd''"
    using c by (simp only: qbuf) simp
  from mem w r1 r2 r3 r4 show ?thesis by simp
qed

text \<open>
  C9. \<^verbatim>\<open>read\<close> has a result for every size (the slices never raise), and for every
  buffer and every size that is at least the number of buffered bytes it returns the whole
  buffer, no more and no less, and leaves the buffer empty.
\<close>

theorem read_size_at_least_length_drains:
  "int (length (rx_buffer p)) \<le> sz \<Longrightarrow>
     BLEperipheral_read p (Some sz) = (rx_buffer p, p\<lparr>rx_buffer := []\<rparr>)"
  by (auto simp add: BLEperipheral_read_def Let_def py_slice_prefix py_slice_from_def py_index_def)

theorem read_size_at_least_length_drains_witness:
  "int (length (rx_buffer ((BLEperipheral_init 1 2 [])\<lparr>rx_buffer := ''abc''\<rparr>))) \<le> 5
   \<and> BLEperipheral_read ((BLEperipheral_init 1 2 [])\<lparr>rx_buffer := ''abc''\<rparr>) (Some 5)
       = (''abc'', BLEperipheral_init 1 2 [])"
  using read_size_at_least_length_drains [of "(BLEperipheral_init 1 2 [])\<lparr>rx_buffer := ''abc''\<rparr>" 5]
  by (simp add: BLEperipheral_init_def)

subsection \<open>Notification fan-out\<close>

text \<open>
  C4. For every payload, \<^verbatim>\<open>write\<close> issues one \<^verbatim>\<open>gatts_notify\<close> with that payload,
  unchanged, on the TX handle for each session in the registry at the time of the call and
  nothing else: a session in the registry is notified exactly once, a session outside it
  not at all, also not by the connect event that adds it afterwards. The call leaves the
  object as it was, so nothing about the delivery is kept. The registry holds no handle
  twice; that holds at start and is kept by every event (\<open>connections_distinct_init\<close>,
  \<open>connections_distinct_irq\<close>).
\<close>

theorem write_notifies_exactly_the_registry:
  assumes "distinct (connections p)"
  shows "fst (BLEperipheral_write p X) = p
    \<and> length (snd (BLEperipheral_write p X)) = length (connections p)
    \<and> count_list (snd (BLEperipheral_write p X)) (GattsNotify s (p_tx_handle p) X)
        = (if s \<in> set (connections p) then 1 else 0)
    \<and> (\<forall>e \<in> set (snd (BLEperipheral_write p X)).
          \<exists>s' \<in> set (connections p). e = GattsNotify s' (p_tx_handle p) X)
    \<and> (s \<notin> set (connections p) \<longrightarrow>
          (\<forall>h d. GattsNotify s h d \<notin> set (snd (BLEperipheral_write p X))
               \<and> GattsNotify s h d \<notin> set (snd (BLEperipheral_irq g
                    (fst (BLEperipheral_write p X)) (IRQ_CENTRAL_CONNECT s at a)))))"
proof -
  have inj: "inj (\<lambda>conn_h. GattsNotify conn_h (p_tx_handle p) X)"
    by (simp add: inj_def)
  have cnt: "count_list (snd (BLEperipheral_write p X)) (GattsNotify s (p_tx_handle p) X)
        = (if s \<in> set (connections p) then 1 else 0)"
    unfolding BLEperipheral_write_def snd_conv
    by (rule count_list_map_inj [OF assms inj])
  show ?thesis
    using cnt by (auto simp add: BLEperipheral_write_def)
qed

theorem write_notifies_exactly_the_registry_witness:
  "distinct (connections ((BLEperipheral_init 1 2 [])\<lparr>connections := [7, 9]\<rparr>))
   \<and> snd (BLEperipheral_write ((BLEperipheral_init 1 2 [])\<lparr>connections := [7, 9]\<rparr>) ''23|45|120'')
       = [GattsNotify 7 1 ''23|45|120'', GattsNotify 9 1 ''23|45|120'']
   \<and> count_list (snd (BLEperipheral_write ((BLEperipheral_init 1 2 [])\<lparr>connections := [7, 9]\<rparr>)
         ''23|45|120'')) (GattsNotify 11 1 ''23|45|120'') = 0
   \<and> count_list (snd (BLEperipheral_write ((BLEperipheral_init 1 2 [])\<lparr>connections := [7, 9]\<rparr>)
         ''23|45|120'')) (GattsNotify 9 1 ''23|45|120'') = 1
   \<and> 11 \<notin> set (connections ((BLEperipheral_init 1 2 [])\<lparr>connections := [7, 9]\<rparr>))
   \<and> GattsNotify 11 1 ''23|45|120'' \<notin> set (snd (BLEperipheral_irq (\<lambda>h. [])
         (fst (BLEperipheral_write ((BLEperipheral_init 1 2 [])\<lparr>connections := [7, 9]\<rparr>)
            ''23|45|120'')) (IRQ_CENTRAL_CONNECT 11 0 [])))"
proof -
  let ?p = "(BLEperipheral_init 1 2 [])\<lparr>connections := [7, 9]\<rparr>"
  have d: "distinct (connections ?p)"
    by simp
  have tx: "p_tx_handle ?p = 1" and cs: "connections ?p = [7, 9]"
    by (simp_all add: BLEperipheral_init_def)
  have e: "snd (BLEperipheral_write ?p ''23|45|120'')
       = [GattsNotify 7 1 ''23|45|120'', GattsNotify 9 1 ''23|45|120'']"
    by (simp add: BLEperipheral_write_def BLEperipheral_init_def)
  have n11: "count_list (snd (BLEperipheral_write ?p ''23|45|120'')) (GattsNotify 11 1 ''23|45|120'') = 0"
    using write_notifies_exactly_the_registry [OF d, of "''23|45|120''" 11] by (simp only: tx cs) simp
  have n9: "count_list (snd (BLEperipheral_write ?p ''23|45|120'')) (GattsNotify 9 1 ''23|45|120'') = 1"
    using write_notifies_exactly_the_registry [OF d, of "''23|45|120''" 9] by (simp only: tx cs) simp
  have out: "11 \<notin> set (connections ?p)"
    by simp
  have later: "GattsNotify 11 1 ''23|45|120'' \<notin> set (snd (BLEperipheral_irq (\<lambda>h. [])
         (fst (BLEperipheral_write ?p ''23|45|120'')) (IRQ_CENTRAL_CONNECT 11 0 [])))"
    using write_notifies_exactly_the_registry [OF d, of "''23|45|120''" 11 "\<lambda>h. []" 0 "[]"] out
    by blast
  from d e n11 n9 out later show ?thesis by blast
qed

section \<open>Properties of the Central\<close>

lemma reset_is_init: "BLECentral_reset c = BLECentral_init"
  by (cases c) (simp add: BLECentral_reset_def BLECentral_init_def)

lemma init_not_connected: "\<not> BLECentral_is_connected BLECentral_init"
  by (simp add: BLECentral_is_connected_def BLECentral_init_def)

subsection \<open>Events within a session\<close>

lemma run_Cons_fst:
  "fst (BLECentral_run codec c (ev # evs))
     = fst (BLECentral_run codec (fst (BLECentral_irq codec c ev)) evs)"
  by (simp split: prod.splits)

lemma session_event_keeps_session:
  "within_session ev \<Longrightarrow>
     conn_handle (fst (BLECentral_irq codec c ev)) = conn_handle c
     \<and> conn_callback (fst (BLECentral_irq codec c ev)) = conn_callback c"
  by (cases ev) (auto simp add: Let_def split: option.splits)



lemma session_run_keeps_session:
  "\<forall>ev \<in> set evs. within_session ev \<Longrightarrow>
     conn_handle (fst (BLECentral_run codec c evs)) = conn_handle c
     \<and> conn_callback (fst (BLECentral_run codec c evs)) = conn_callback c"
proof (induction evs arbitrary: c)
  case Nil
  then show ?case by simp
next
  case (Cons ev evs)
  then show ?case
    by (simp only: run_Cons_fst) (simp add: session_event_keeps_session)
qed



lemma session_event_span:
  assumes "within_session ev"
    and "\<not> (\<exists>h s e. conn_handle c = Some h \<and> ev = IRQ_GATTC_SERVICE_RESULT h s e UART_SERVICE_UUID)"
  shows "start_handle (fst (BLECentral_irq codec c ev)) = start_handle c
    \<and> end_handle (fst (BLECentral_irq codec c ev)) = end_handle c"
  using assms by (cases ev) (auto simp add: Let_def split: option.splits)

lemma session_run_span:
  "\<forall>ev \<in> set evs. within_session ev \<Longrightarrow>
     (start_handle (fst (BLECentral_run codec c evs)) = start_handle c
        \<and> end_handle (fst (BLECentral_run codec c evs)) = end_handle c
        \<and> \<not> (\<exists>h s e. conn_handle c = Some h
                \<and> IRQ_GATTC_SERVICE_RESULT h s e UART_SERVICE_UUID \<in> set evs))
     \<or> (\<exists>h s e. conn_handle c = Some h
           \<and> IRQ_GATTC_SERVICE_RESULT h s e UART_SERVICE_UUID \<in> set evs
           \<and> start_handle (fst (BLECentral_run codec c evs)) = Some s
           \<and> end_handle (fst (BLECentral_run codec c evs)) = Some e)"
proof (induction evs arbitrary: c)
  case Nil
  then show ?case by simp
next
  case (Cons ev evs)
  let ?c1 = "fst (BLECentral_irq codec c ev)"
  have ev: "within_session ev" and evs: "\<forall>ev \<in> set evs. within_session ev"
    using Cons.prems by simp_all
  have same: "conn_handle ?c1 = conn_handle c"
    using session_event_keeps_session [OF ev] by simp
  note IH = Cons.IH [OF evs, of ?c1, unfolded same]
  show ?case
  proof (cases "\<exists>h s e. conn_handle c = Some h
      \<and> ev = IRQ_GATTC_SERVICE_RESULT h s e UART_SERVICE_UUID")
    case True
    then obtain h s e where h: "conn_handle c = Some h"
      and e: "ev = IRQ_GATTC_SERVICE_RESULT h s e UART_SERVICE_UUID"
      by blast
    have span: "start_handle ?c1 = Some s \<and> end_handle ?c1 = Some e"
      using h e by simp
    from IH span h e show ?thesis
      unfolding run_Cons_fst by (simp only: set_simps insert_iff) blast
  next
    case False
    from session_event_span [OF ev False]
    have span: "start_handle ?c1 = start_handle c \<and> end_handle ?c1 = end_handle c" .
    from IH span False show ?thesis
      unfolding run_Cons_fst by (simp only: set_simps insert_iff) blast
  qed
qed

subsection \<open>Discovery\<close>



text \<open>
  C6, as stated, fails: a span is recorded under the connection handle of the moment and a
  connect event only assigns \<^verbatim>\<open>_conn_handle\<close>, so a span outlives the session it was
  recorded for. The Central connects on handle 1 and records the span 12 to 17; a second
  connect event for the same peer arrives on handle 2 with no disconnect event in between.
  No service-result event has arrived for handle 2, yet the service-done event requests
  characteristic discovery, over the span of handle 1.
\<close>

theorem stale_span_discovery_counterexample:
  "snd (BLECentral_irq no_advertising
     (fst (BLECentral_run no_advertising
        (BLECentral_init\<lparr>addr_type := Some 0,
           addr := Some [CHR 0x02, CHR 0x05, CHR 0x82, CHR 0x06, CHR 0x35, CHR 0x9E]\<rparr>)
        [IRQ_advertising_payload_CONNECT 1 0 [CHR 0x02, CHR 0x05, CHR 0x82, CHR 0x06, CHR 0x35, CHR 0x9E],
         IRQ_GATTC_SERVICE_RESULT 1 12 17 UART_SERVICE_UUID,
         IRQ_advertising_payload_CONNECT 2 0 [CHR 0x02, CHR 0x05, CHR 0x82, CHR 0x06, CHR 0x35, CHR 0x9E]]))
     IRQ_GATTC_SERVICE_DONE)
   = [GattcDiscoverCharacteristics (Some 2) 12 17]"
  by (simp add: BLECentral_init_def)

text \<open>
  C6, amended. Handles are taken to be other than 0, as the attribute handles of a GATT
  server are; what the truthiness test of the source makes of a handle 0 is left aside.
  On a service-done event the Central requests characteristic discovery if and only if it
  holds a service span (both handles set); the request is the only effect and runs over
  exactly the held span on the current connection handle; otherwise the event issues no
  request and reports the service unreachable. A span is recorded by a service-result
  event for the current connection handle and the Uart service identifier and by nothing
  else; it survives a connect event and is dropped by a disconnect event for the current
  connection handle. In a session that begins with no span held and sees
  neither a connect nor a disconnect event, the service-done event requests discovery if
  and only if a service-result event for the current connection handle and the Uart
  service arrived in that session, and then over the span of such an event; without one it
  reports the service unreachable.
\<close>

theorem characteristic_discovery_over_held_span:
  "(start_handle c \<noteq> Some 0 \<and> end_handle c \<noteq> Some 0 \<longrightarrow>
      ((\<exists>h' s' e'. GattcDiscoverCharacteristics h' s' e'
            \<in> set (snd (BLECentral_irq codec c IRQ_GATTC_SERVICE_DONE)))
         = (start_handle c \<noteq> None \<and> end_handle c \<noteq> None))
      \<and> (start_handle c = Some s \<and> end_handle c = Some e \<longrightarrow>
            BLECentral_irq codec c IRQ_GATTC_SERVICE_DONE
              = (c, [GattcDiscoverCharacteristics (conn_handle c) s e])))
   \<and> (start_handle c = None \<or> end_handle c = None \<longrightarrow>
        BLECentral_irq codec c IRQ_GATTC_SERVICE_DONE
          = (c, [Print Msg_Uart_service_unreachable]))
   \<and> (conn_handle c = Some h \<longrightarrow>
        BLECentral_irq codec c (IRQ_GATTC_SERVICE_RESULT h s e UART_SERVICE_UUID)
          = (c\<lparr>start_handle := Some s, end_handle := Some e\<rparr>, []))
   \<and> (conn_handle c \<noteq> Some h \<or> u \<noteq> UART_SERVICE_UUID \<longrightarrow>
        BLECentral_irq codec c (IRQ_GATTC_SERVICE_RESULT h s e u) = (c, []))
   \<and> start_handle (fst (BLECentral_irq codec c (IRQ_advertising_payload_CONNECT h at a)))
       = start_handle c
   \<and> end_handle (fst (BLECentral_irq codec c (IRQ_advertising_payload_CONNECT h at a)))
       = end_handle c
   \<and> (conn_handle c = Some h \<longrightarrow>
        start_handle (fst (BLECentral_irq codec c (IRQ_advertising_payload_DISCONNECT h at a))) = None
        \<and> end_handle (fst (BLECentral_irq codec c (IRQ_advertising_payload_DISCONNECT h at a))) = None)
   \<and> (start_handle c = None \<and> end_handle c = None
        \<and> (\<forall>x \<in> set evs. within_session x)
        \<and> (\<forall>h' s' e' u'. IRQ_GATTC_SERVICE_RESULT h' s' e' u' \<in> set evs \<longrightarrow> s' \<noteq> 0 \<and> e' \<noteq> 0)
      \<longrightarrow>
        ((\<exists>h' s' e'. GattcDiscoverCharacteristics h' s' e'
              \<in> set (snd (BLECentral_irq codec (fst (BLECentral_run codec c evs))
                            IRQ_GATTC_SERVICE_DONE)))
           = (\<exists>h' s' e'. conn_handle c = Some h'
                \<and> IRQ_GATTC_SERVICE_RESULT h' s' e' UART_SERVICE_UUID \<in> set evs))
        \<and> (\<forall>h' s' e'. GattcDiscoverCharacteristics h' s' e'
              \<in> set (snd (BLECentral_irq codec (fst (BLECentral_run codec c evs))
                            IRQ_GATTC_SERVICE_DONE))
            \<longrightarrow> h' = conn_handle c
                \<and> (\<exists>k. conn_handle c = Some k
                      \<and> IRQ_GATTC_SERVICE_RESULT k s' e' UART_SERVICE_UUID \<in> set evs))
        \<and> (\<not> (\<exists>h' s' e'. conn_handle c = Some h'
                \<and> IRQ_GATTC_SERVICE_RESULT h' s' e' UART_SERVICE_UUID \<in> set evs)
            \<longrightarrow> snd (BLECentral_irq codec (fst (BLECentral_run codec c evs))
                        IRQ_GATTC_SERVICE_DONE) = [Print Msg_Uart_service_unreachable]))"
proof -
  have held: "start_handle c \<noteq> Some 0 \<and> end_handle c \<noteq> Some 0 \<longrightarrow>
      ((\<exists>h' s' e'. GattcDiscoverCharacteristics h' s' e'
            \<in> set (snd (BLECentral_irq codec c IRQ_GATTC_SERVICE_DONE)))
         = (start_handle c \<noteq> None \<and> end_handle c \<noteq> None))
      \<and> (start_handle c = Some s \<and> end_handle c = Some e \<longrightarrow>
            BLECentral_irq codec c IRQ_GATTC_SERVICE_DONE
              = (c, [GattcDiscoverCharacteristics (conn_handle c) s e]))"
    by (cases "start_handle c"; cases "end_handle c") auto
  have none: "start_handle c = None \<or> end_handle c = None \<longrightarrow>
        BLECentral_irq codec c IRQ_GATTC_SERVICE_DONE
          = (c, [Print Msg_Uart_service_unreachable])"
    by auto
  have recorded: "conn_handle c = Some h \<longrightarrow>
        BLECentral_irq codec c (IRQ_GATTC_SERVICE_RESULT h s e UART_SERVICE_UUID)
          = (c\<lparr>start_handle := Some s, end_handle := Some e\<rparr>, [])"
    by simp
  have other: "conn_handle c \<noteq> Some h \<or> u \<noteq> UART_SERVICE_UUID \<longrightarrow>
        BLECentral_irq codec c (IRQ_GATTC_SERVICE_RESULT h s e u) = (c, [])"
    by auto
  have dropped: "conn_handle c = Some h \<longrightarrow>
        start_handle (fst (BLECentral_irq codec c (IRQ_advertising_payload_DISCONNECT h at a))) = None
        \<and> end_handle (fst (BLECentral_irq codec c (IRQ_advertising_payload_DISCONNECT h at a))) = None"
    by (simp add: reset_is_init BLECentral_init_def)
  have kept: "start_handle (fst (BLECentral_irq codec c (IRQ_advertising_payload_CONNECT h at a)))
       = start_handle c
     \<and> end_handle (fst (BLECentral_irq codec c (IRQ_advertising_payload_CONNECT h at a)))
       = end_handle c"
    by simp
  have session: "start_handle c = None \<and> end_handle c = None
        \<and> (\<forall>x \<in> set evs. within_session x)
        \<and> (\<forall>h' s' e' u'. IRQ_GATTC_SERVICE_RESULT h' s' e' u' \<in> set evs \<longrightarrow> s' \<noteq> 0 \<and> e' \<noteq> 0)
      \<longrightarrow>
        ((\<exists>h' s' e'. GattcDiscoverCharacteristics h' s' e'
              \<in> set (snd (BLECentral_irq codec (fst (BLECentral_run codec c evs))
                            IRQ_GATTC_SERVICE_DONE)))
           = (\<exists>h' s' e'. conn_handle c = Some h'
                \<and> IRQ_GATTC_SERVICE_RESULT h' s' e' UART_SERVICE_UUID \<in> set evs))
        \<and> (\<forall>h' s' e'. GattcDiscoverCharacteristics h' s' e'
              \<in> set (snd (BLECentral_irq codec (fst (BLECentral_run codec c evs))
                            IRQ_GATTC_SERVICE_DONE))
            \<longrightarrow> h' = conn_handle c
                \<and> (\<exists>k. conn_handle c = Some k
                      \<and> IRQ_GATTC_SERVICE_RESULT k s' e' UART_SERVICE_UUID \<in> set evs))
        \<and> (\<not> (\<exists>h' s' e'. conn_handle c = Some h'
                \<and> IRQ_GATTC_SERVICE_RESULT h' s' e' UART_SERVICE_UUID \<in> set evs)
            \<longrightarrow> snd (BLECentral_irq codec (fst (BLECentral_run codec c evs))
                        IRQ_GATTC_SERVICE_DONE) = [Print Msg_Uart_service_unreachable])"
  proof
    assume a: "start_handle c = None \<and> end_handle c = None
        \<and> (\<forall>x \<in> set evs. within_session x)
        \<and> (\<forall>h' s' e' u'. IRQ_GATTC_SERVICE_RESULT h' s' e' u' \<in> set evs \<longrightarrow> s' \<noteq> 0 \<and> e' \<noteq> 0)"
    then have fresh: "start_handle c = None" "end_handle c = None"
      and evs: "\<forall>x \<in> set evs. within_session x"
      and valid: "\<And>h' s' e' u'. IRQ_GATTC_SERVICE_RESULT h' s' e' u' \<in> set evs
          \<Longrightarrow> s' \<noteq> 0 \<and> e' \<noteq> 0"
      by blast+
    let ?c1 = "fst (BLECentral_run codec c evs)"
    let ?matched = "\<exists>h' s' e'. conn_handle c = Some h'
                \<and> IRQ_GATTC_SERVICE_RESULT h' s' e' UART_SERVICE_UUID \<in> set evs"
    have same: "conn_handle ?c1 = conn_handle c"
      using session_run_keeps_session [OF evs, of codec c] by simp
    from session_run_span [OF evs, of codec c] fresh
    consider (unmatched) "start_handle ?c1 = None" "end_handle ?c1 = None" "\<not> ?matched"
      | (matched) k s1 e1 where "conn_handle c = Some k"
          "IRQ_GATTC_SERVICE_RESULT k s1 e1 UART_SERVICE_UUID \<in> set evs"
          "start_handle ?c1 = Some s1" "end_handle ?c1 = Some e1"
      by auto
    then show "((\<exists>h' s' e'. GattcDiscoverCharacteristics h' s' e'
              \<in> set (snd (BLECentral_irq codec ?c1 IRQ_GATTC_SERVICE_DONE)))
           = ?matched)
        \<and> (\<forall>h' s' e'. GattcDiscoverCharacteristics h' s' e'
              \<in> set (snd (BLECentral_irq codec ?c1 IRQ_GATTC_SERVICE_DONE))
            \<longrightarrow> h' = conn_handle c
                \<and> (\<exists>k. conn_handle c = Some k
                      \<and> IRQ_GATTC_SERVICE_RESULT k s' e' UART_SERVICE_UUID \<in> set evs))
        \<and> (\<not> ?matched
            \<longrightarrow> snd (BLECentral_irq codec ?c1 IRQ_GATTC_SERVICE_DONE)
                  = [Print Msg_Uart_service_unreachable])"
    proof cases
      case unmatched
      then have "snd (BLECentral_irq codec ?c1 IRQ_GATTC_SERVICE_DONE)
          = [Print Msg_Uart_service_unreachable]"
        by simp
      with unmatched(3) show ?thesis by simp
    next
      case matched
      from valid [OF matched(2)] have nz: "s1 \<noteq> 0" "e1 \<noteq> 0"
        by simp_all
      have "snd (BLECentral_irq codec ?c1 IRQ_GATTC_SERVICE_DONE)
          = [GattcDiscoverCharacteristics (conn_handle c) s1 e1]"
        using matched(3,4) nz same by simp
      with matched(1,2) show ?thesis by auto
    qed
  qed
  from held none recorded other kept dropped session show ?thesis by blast
qed

theorem characteristic_discovery_over_held_span_witness:
  "start_handle (BLECentral_init\<lparr>conn_handle := Some 1\<rparr>) = None
   \<and> end_handle (BLECentral_init\<lparr>conn_handle := Some 1\<rparr>) = None
   \<and> conn_handle (BLECentral_init\<lparr>conn_handle := Some 1\<rparr>) = Some 1
   \<and> within_session (IRQ_GATTC_SERVICE_RESULT 1 1 9 0x1800)
   \<and> within_session (IRQ_GATTC_SERVICE_RESULT 1 12 17 UART_SERVICE_UUID)
   \<and> (\<exists>h' s' e'. GattcDiscoverCharacteristics h' s' e'
         \<in> set (snd (BLECentral_irq no_advertising
              (fst (BLECentral_run no_advertising (BLECentral_init\<lparr>conn_handle := Some 1\<rparr>)
                 [IRQ_GATTC_SERVICE_RESULT 1 1 9 0x1800,
                  IRQ_GATTC_SERVICE_RESULT 1 12 17 UART_SERVICE_UUID]))
              IRQ_GATTC_SERVICE_DONE)))
   \<and> BLECentral_irq no_advertising (BLECentral_init\<lparr>conn_handle := Some 1\<rparr>) IRQ_GATTC_SERVICE_DONE
       = (BLECentral_init\<lparr>conn_handle := Some 1\<rparr>, [Print Msg_Uart_service_unreachable])
   \<and> BLECentral_irq no_advertising (BLECentral_init\<lparr>conn_handle := Some 1\<rparr>)
        (IRQ_GATTC_SERVICE_RESULT 1 12 17 UART_SERVICE_UUID)
       = (BLECentral_init\<lparr>conn_handle := Some 1, start_handle := Some 12, end_handle := Some 17\<rparr>, [])
   \<and> BLECentral_irq no_advertising (BLECentral_init\<lparr>conn_handle := Some 1\<rparr>)
        (IRQ_GATTC_SERVICE_RESULT 2 12 17 UART_SERVICE_UUID)
       = (BLECentral_init\<lparr>conn_handle := Some 1\<rparr>, [])
   \<and> start_handle (BLECentral_init\<lparr>conn_handle := Some 1, start_handle := Some 12,
        end_handle := Some 17\<rparr>) \<noteq> Some 0
   \<and> end_handle (BLECentral_init\<lparr>conn_handle := Some 1, start_handle := Some 12,
        end_handle := Some 17\<rparr>) \<noteq> Some 0
   \<and> BLECentral_irq no_advertising (BLECentral_init\<lparr>conn_handle := Some 1,
        start_handle := Some 12, end_handle := Some 17\<rparr>) IRQ_GATTC_SERVICE_DONE
       = (BLECentral_init\<lparr>conn_handle := Some 1, start_handle := Some 12, end_handle := Some 17\<rparr>,
          [GattcDiscoverCharacteristics (Some 1) 12 17])"
proof -
  let ?c = "BLECentral_init\<lparr>conn_handle := Some 1\<rparr>"
  let ?d = "BLECentral_init\<lparr>conn_handle := Some 1, start_handle := Some 12,
        end_handle := Some 17\<rparr>"
  let ?evs = "[IRQ_GATTC_SERVICE_RESULT 1 1 9 0x1800,
                  IRQ_GATTC_SERVICE_RESULT 1 12 17 UART_SERVICE_UUID]"
  have sn: "start_handle ?c = None" and en: "end_handle ?c = None"
    and ch: "conn_handle ?c = Some 1" and other: "conn_handle ?c \<noteq> Some 2"
    by (simp_all add: BLECentral_init_def)
  have evs: "\<forall>x \<in> set ?evs. within_session x"
    by simp
  have valid: "\<forall>h' s' e' u'. IRQ_GATTC_SERVICE_RESULT h' s' e' u' \<in> set ?evs \<longrightarrow> s' \<noteq> 0 \<and> e' \<noteq> 0"
    by auto
  have matched: "\<exists>h' s' e'. conn_handle ?c = Some h'
      \<and> IRQ_GATTC_SERVICE_RESULT h' s' e' UART_SERVICE_UUID \<in> set ?evs"
    using ch by (intro exI [of _ 1] exI [of _ 12] exI [of _ 17]) simp
  have s1: "start_handle ?d \<noteq> Some 0" and e1: "end_handle ?d \<noteq> Some 0"
    and sd: "start_handle ?d = Some 12" and ed: "end_handle ?d = Some 17"
    and cd: "conn_handle ?d = Some 1"
    by simp_all
  note a = characteristic_discovery_over_held_span
    [of ?c no_advertising 12 17 1 UART_SERVICE_UUID 0 "[]" ?evs]
  note b = characteristic_discovery_over_held_span
    [of ?c no_advertising 12 17 2 UART_SERVICE_UUID 0 "[]" ?evs]
  note d = characteristic_discovery_over_held_span
    [of ?d no_advertising 12 17 1 UART_SERVICE_UUID 0 "[]" ?evs]
  have session: "\<exists>h' s' e'. GattcDiscoverCharacteristics h' s' e'
         \<in> set (snd (BLECentral_irq no_advertising (fst (BLECentral_run no_advertising ?c ?evs))
              IRQ_GATTC_SERVICE_DONE))"
    using a sn en evs valid matched by blast
  have unreachable: "BLECentral_irq no_advertising ?c IRQ_GATTC_SERVICE_DONE
       = (?c, [Print Msg_Uart_service_unreachable])"
    using a sn by blast
  have recorded: "BLECentral_irq no_advertising ?c
        (IRQ_GATTC_SERVICE_RESULT 1 12 17 UART_SERVICE_UUID) = (?d, [])"
    using a ch by simp
  have ignored: "BLECentral_irq no_advertising ?c
        (IRQ_GATTC_SERVICE_RESULT 2 12 17 UART_SERVICE_UUID) = (?c, [])"
    using b other by blast
  have direct: "BLECentral_irq no_advertising ?d IRQ_GATTC_SERVICE_DONE
       = (?d, [GattcDiscoverCharacteristics (Some 1) 12 17])"
    using d s1 e1 sd ed cd by simp
  have w1: "within_session (IRQ_GATTC_SERVICE_RESULT 1 1 9 0x1800)"
    and w2: "within_session (IRQ_GATTC_SERVICE_RESULT 1 12 17 UART_SERVICE_UUID)"
    by simp_all
  from sn en ch w1 w2 session unreachable recorded ignored s1 e1 direct show ?thesis
    by - (intro conjI, assumption+)
qed

subsection \<open>Scanning\<close>

text \<open>
  C7. The claim asks for a single-shot scan callback in both outcomes; the success branch
  of the scan-done handler clears \<^verbatim>\<open>_scan_callback\<close> after the call, the failure
  branch does not. With callback 1 stored and no address cached, a scan-done event
  invokes the callback with three \<^verbatim>\<open>None\<close> and leaves it stored, and a second
  scan-done event invokes it again.
\<close>

theorem scan_done_failure_keeps_callback:
  "BLECentral_irq no_advertising (BLECentral_init\<lparr>scan_callback := Some 1\<rparr>) IRQ_SCAN_DONE
     = (BLECentral_init\<lparr>scan_callback := Some 1\<rparr>,
        [ScanCallback 1 None None None, Print Msg_Scan_failure])
   \<and> scan_callback (fst (BLECentral_irq no_advertising
        (BLECentral_init\<lparr>scan_callback := Some 1\<rparr>) IRQ_SCAN_DONE)) = Some 1
   \<and> snd (BLECentral_irq no_advertising
        (fst (BLECentral_irq no_advertising (BLECentral_init\<lparr>scan_callback := Some 1\<rparr>)
           IRQ_SCAN_DONE)) IRQ_SCAN_DONE)
     = [ScanCallback 1 None None None, Print Msg_Scan_failure]"
  by (simp add: BLECentral_init_def)

text \<open>The success branch, for comparison: the callback gets the cached triple and is
  cleared, so a second scan-done event invokes nothing.\<close>

lemma scan_done_success_clears_callback:
  assumes "scan_callback c = Some cb" and "addr c = Some a" and "a \<noteq> []"
  shows "BLECentral_irq codec c IRQ_SCAN_DONE
     = (c\<lparr>scan_callback := None\<rparr>,
        [ScanCallback cb (addr_type c) (Some a) (name c), Print Msg_Scan_success])"
    and "snd (BLECentral_irq codec (fst (BLECentral_irq codec c IRQ_SCAN_DONE)) IRQ_SCAN_DONE) = []"
  using assms by simp_all

text \<open>
  C8, as stated, fails: \<^verbatim>\<open>scan\<close> assigns \<^verbatim>\<open>_addr_type\<close>, \<^verbatim>\<open>_addr\<close> and
  \<^verbatim>\<open>_scan_callback\<close> and never \<^verbatim>\<open>_name\<close>. A name cached by an earlier cycle is
  still there after the call.
\<close>

theorem scan_keeps_name_counterexample:
  "name (fst (BLECentral_scan Returned
      (BLECentral_init\<lparr>name := Some ''ID000001'', addr_type := Some 0,
         addr := Some [CHR 0x02, CHR 0x05, CHR 0x82, CHR 0x06, CHR 0x35, CHR 0x9E]\<rparr>) None))
     = Some ''ID000001''"
  by (simp add: BLECentral_scan_def)

text \<open>
  C8, amended. Every call to \<^verbatim>\<open>scan\<close> clears the cached address and the cached
  address type and stores its argument as the scan callback, whatever the transport
  request does, and requests the transport scan; the cached name and every other
  attribute are left as they were.
\<close>

theorem scan_clears_address_keeps_name:
  "addr (fst (BLECentral_scan r c cb)) = None
   \<and> addr_type (fst (BLECentral_scan r c cb)) = None
   \<and> scan_callback (fst (BLECentral_scan r c cb)) = cb
   \<and> name (fst (BLECentral_scan r c cb)) = name c
   \<and> fst (BLECentral_scan r c cb) = c\<lparr>addr_type := None, addr := None, scan_callback := cb\<rparr>
   \<and> snd (BLECentral_scan r c cb) = [GapScan 2000 30000 30000 True]"
  by (simp add: BLECentral_scan_def)

subsection \<open>Connecting and disconnecting\<close>

text \<open>
  C10. \<^verbatim>\<open>connect\<close> assigns \<^verbatim>\<open>_conn_callback\<close> before it checks for an address:
  after every call, failed or not, the stored connection callback is the call's argument.
  A call fails (returns \<^verbatim>\<open>False\<close>) exactly when it is given no complete explicit
  address (address type or address missing) and finds no complete cached one. Every such
  call issues no request and leaves the object changed in exactly one attribute, the
  connection callback, which is the new argument whatever was registered before. A call
  with a complete explicit address, or with a complete cached one, returns \<^verbatim>\<open>True\<close>
  and requests the connection.
\<close>

theorem connect_failure_replaces_callback:
  "conn_callback (fst (snd (BLECentral_connect r c at a cb))) = cb
   \<and> (\<not> fst (BLECentral_connect r c at a cb))
       = ((at = None \<or> a = None) \<and> (addr_type c = None \<or> addr c = None))
   \<and> ((at = None \<or> a = None) \<and> (addr_type c = None \<or> addr c = None) \<longrightarrow>
        BLECentral_connect r c at a cb = (False, c\<lparr>conn_callback := cb\<rparr>, []))
   \<and> (at = Some t \<and> a = Some b \<longrightarrow>
        BLECentral_connect r c at a cb
          = (True, c\<lparr>addr_type := Some t, addr := Some b, conn_callback := cb\<rparr>, [GapConnect t b]))
   \<and> ((at = None \<or> a = None) \<and> addr_type c = Some t \<and> addr c = Some b \<longrightarrow>
        BLECentral_connect r c at a cb = (True, c\<lparr>conn_callback := cb\<rparr>, [GapConnect t b]))"
  by (auto simp add: BLECentral_connect_def Let_def)

theorem connect_failure_replaces_callback_witness:
  "(Some (0::nat) = None \<or> (None::bytes option) = None)
   \<and> (addr_type (BLECentral_init\<lparr>conn_callback := Some 3\<rparr>) = None
        \<or> addr (BLECentral_init\<lparr>conn_callback := Some 3\<rparr>) = None)
   \<and> conn_callback (BLECentral_init\<lparr>conn_callback := Some 3\<rparr>) = Some 3
   \<and> BLECentral_connect Returned (BLECentral_init\<lparr>conn_callback := Some 3\<rparr>) (Some 0) None (Some 8)
       = (False, BLECentral_init\<lparr>conn_callback := Some 8\<rparr>, [])
   \<and> BLECentral_connect Raised_OSError (BLECentral_init\<lparr>conn_callback := Some 3\<rparr>)
        (Some 0) (Some ''PERIPH'') None
       = (True, BLECentral_init\<lparr>conn_callback := None, addr_type := Some 0, addr := Some ''PERIPH''\<rparr>,
          [GapConnect 0 ''PERIPH''])
   \<and> BLECentral_connect Returned
        (BLECentral_init\<lparr>addr_type := Some 1, addr := Some ''PERIPH''\<rparr>) None None (Some 8)
       = (True, BLECentral_init\<lparr>addr_type := Some 1, addr := Some ''PERIPH'', conn_callback := Some 8\<rparr>,
          [GapConnect 1 ''PERIPH''])"
proof -
  let ?c = "BLECentral_init\<lparr>conn_callback := Some 3\<rparr>"
  let ?k = "BLECentral_init\<lparr>addr_type := Some 1, addr := Some ''PERIPH''\<rparr>"
  have explicit: "Some (0::nat) = None \<or> (None::bytes option) = None"
    by simp
  have cached: "addr_type ?c = None \<or> addr ?c = None"
    by (simp add: BLECentral_init_def)
  have before: "conn_callback ?c = Some 3"
    by simp
  have fails: "BLECentral_connect Returned ?c (Some 0) None (Some 8)
       = (False, BLECentral_init\<lparr>conn_callback := Some 8\<rparr>, [])"
  proof -
    from connect_failure_replaces_callback [of Returned ?c "Some 0" None "Some 8" 0 "''PERIPH''"]
      explicit cached
    have "BLECentral_connect Returned ?c (Some 0) None (Some 8)
       = (False, ?c\<lparr>conn_callback := Some 8\<rparr>, [])"
      by blast
    then show ?thesis by simp
  qed
  have given: "BLECentral_connect Raised_OSError ?c (Some 0) (Some ''PERIPH'') None
       = (True, BLECentral_init\<lparr>conn_callback := None, addr_type := Some 0, addr := Some ''PERIPH''\<rparr>,
          [GapConnect 0 ''PERIPH''])"
    using connect_failure_replaces_callback
      [of Raised_OSError ?c "Some 0" "Some ''PERIPH''" None 0 "''PERIPH''"]
    by (simp add: BLECentral_init_def)
  have kt: "addr_type ?k = Some 1" and kb: "addr ?k = Some ''PERIPH''"
    by simp_all
  have from_cache: "BLECentral_connect Returned ?k None None (Some 8)
       = (True, BLECentral_init\<lparr>addr_type := Some 1, addr := Some ''PERIPH'', conn_callback := Some 8\<rparr>,
          [GapConnect 1 ''PERIPH''])"
    using connect_failure_replaces_callback [of Returned ?k None None "Some 8" 1 "''PERIPH''"] kt kb
    by (simp add: BLECentral_init_def)
  from explicit cached before fails given from_cache show ?thesis
    by - (intro conjI, assumption+)
qed

text \<open>
  C3, as stated, fails: \<^verbatim>\<open>disconnect\<close> begins with
  \<^verbatim>\<open>if not self._conn_handle: return\<close>. In the state a successful scan leaves behind
  (name, address type and address cached, no session) the call returns at once and the
  three cached fields keep their values.
\<close>

theorem disconnect_without_session_counterexample:
  "fst (BLECentral_disconnect Returned
      (BLECentral_init\<lparr>name := Some ''ID000001'', addr_type := Some 0,
         addr := Some [CHR 0x02, CHR 0x05, CHR 0x82, CHR 0x06, CHR 0x35, CHR 0x9E]\<rparr>))
     \<noteq> BLECentral_init
   \<and> addr (fst (BLECentral_disconnect Returned
      (BLECentral_init\<lparr>name := Some ''ID000001'', addr_type := Some 0,
         addr := Some [CHR 0x02, CHR 0x05, CHR 0x82, CHR 0x06, CHR 0x35, CHR 0x9E]\<rparr>)))
     = Some [CHR 0x02, CHR 0x05, CHR 0x82, CHR 0x06, CHR 0x35, CHR 0x9E]"
  by (simp add: BLECentral_disconnect_def BLECentral_init_def)

text \<open>
  C3, amended. For every state that holds a session handle other than 0 (whatever cached
  address or discovered handles it holds), \<^verbatim>\<open>disconnect\<close> requests the transport
  disconnect for that handle and, whether or not the request raises \<^verbatim>\<open>OSError\<close>,
  leaves every attribute equal to its initial unset value, so that \<^verbatim>\<open>is_connected\<close>
  is false afterwards. For every state that holds no session handle the call does nothing:
  no request, no attribute changed, and \<^verbatim>\<open>is_connected\<close> is false before and after.
\<close>

theorem disconnect_resets_session:
  "(conn_handle c = Some h \<and> h \<noteq> 0 \<longrightarrow>
      fst (BLECentral_disconnect r c) = BLECentral_init
      \<and> \<not> BLECentral_is_connected (fst (BLECentral_disconnect r c))
      \<and> hd (snd (BLECentral_disconnect r c)) = GapDisconnect h
      \<and> snd (BLECentral_disconnect r c) \<noteq> [])
   \<and> (conn_handle c = None \<longrightarrow>
      BLECentral_disconnect r c = (c, [])
      \<and> \<not> BLECentral_is_connected (fst (BLECentral_disconnect r c)))"
proof -
  have session: "conn_handle c = Some h \<and> h \<noteq> 0 \<longrightarrow>
      fst (BLECentral_disconnect r c) = BLECentral_init
      \<and> \<not> BLECentral_is_connected (fst (BLECentral_disconnect r c))
      \<and> hd (snd (BLECentral_disconnect r c)) = GapDisconnect h
      \<and> snd (BLECentral_disconnect r c) \<noteq> []"
    using init_not_connected by (simp add: BLECentral_disconnect_def reset_is_init)
  have idle: "conn_handle c = None \<longrightarrow>
      BLECentral_disconnect r c = (c, [])
      \<and> \<not> BLECentral_is_connected (fst (BLECentral_disconnect r c))"
    by (simp add: BLECentral_disconnect_def BLECentral_is_connected_def)
  from session idle show ?thesis by blast
qed

theorem disconnect_resets_session_witness:
  "conn_handle (BLECentral_init\<lparr>name := Some ''ID000001'', addr_type := Some 0,
       addr := Some [CHR 0x02, CHR 0x05, CHR 0x82, CHR 0x06, CHR 0x35, CHR 0x9E],
       conn_callback := Some 4, conn_handle := Some 64, start_handle := Some 12,
       end_handle := Some 17, tx_handle := Some 14, rx_handle := Some 16\<rparr>) = Some 64
   \<and> (64::nat) \<noteq> 0
   \<and> BLECentral_is_connected (BLECentral_init\<lparr>name := Some ''ID000001'', addr_type := Some 0,
       addr := Some [CHR 0x02, CHR 0x05, CHR 0x82, CHR 0x06, CHR 0x35, CHR 0x9E],
       conn_callback := Some 4, conn_handle := Some 64, start_handle := Some 12,
       end_handle := Some 17, tx_handle := Some 14, rx_handle := Some 16\<rparr>)
   \<and> fst (BLECentral_disconnect Raised_OSError (BLECentral_init\<lparr>name := Some ''ID000001'',
       addr_type := Some 0,
       addr := Some [CHR 0x02, CHR 0x05, CHR 0x82, CHR 0x06, CHR 0x35, CHR 0x9E],
       conn_callback := Some 4, conn_handle := Some 64, start_handle := Some 12,
       end_handle := Some 17, tx_handle := Some 14, rx_handle := Some 16\<rparr>)) = BLECentral_init
   \<and> conn_handle BLECentral_init = None
   \<and> BLECentral_disconnect Returned BLECentral_init = (BLECentral_init, [])"
proof -
  let ?c = "BLECentral_init\<lparr>name := Some ''ID000001'', addr_type := Some 0,
       addr := Some [CHR 0x02, CHR 0x05, CHR 0x82, CHR 0x06, CHR 0x35, CHR 0x9E],
       conn_callback := Some 4, conn_handle := Some 64, start_handle := Some 12,
       end_handle := Some 17, tx_handle := Some 14, rx_handle := Some 16\<rparr>"
  have h: "conn_handle ?c = Some 64" and nz: "(64::nat) \<noteq> 0"
    by simp_all
  have connected: "BLECentral_is_connected ?c"
    by (simp add: BLECentral_is_connected_def)
  have none: "conn_handle BLECentral_init = None"
    by (simp add: BLECentral_init_def)
  from disconnect_resets_session [of ?c 64 Raised_OSError] h nz
  have reset: "fst (BLECentral_disconnect Raised_OSError ?c) = BLECentral_init"
    by blast
  from disconnect_resets_session [of BLECentral_init 64 Returned] none
  have idle: "BLECentral_disconnect Returned BLECentral_init = (BLECentral_init, [])"
    by blast
  from h nz connected reset none idle show ?thesis by blast
qed

text \<open>The guard of \<^verbatim>\<open>disconnect\<close> also takes the session handle 0 for no session, while
  \<^verbatim>\<open>is_connected\<close> tests the handle against \<^verbatim>\<open>None\<close>: a ready session on handle 0 is
  left untouched and still connected.\<close>

lemma disconnect_handle_zero:
  "conn_handle c = Some 0 \<Longrightarrow> BLECentral_disconnect r c = (c, [])"
  by (simp add: BLECentral_disconnect_def)

subsection \<open>Waiting for a connection status\<close>

lemma wait_loop_never_True: "wait_loop fuel t0 now timeout_ms \<noteq> Some True"
  by (induction fuel arbitrary: now) auto

lemma wait_for_connection_never_True:
  "BLECentral_wait_for_connection fuel t0 c status timeout_ms \<noteq> Some True"
  by (simp add: BLECentral_wait_for_connection_def wait_loop_never_True)

text \<open>
  C5. The claim, like the docstring of \<^verbatim>\<open>wait_for_connection\<close>, has the call return
  \<^verbatim>\<open>True\<close> once the connection has the expected status. The body never looks at the
  connection or at \<^verbatim>\<open>status\<close> and ends in \<^verbatim>\<open>return False\<close>: for a Central that is
  connected, \<^verbatim>\<open>wait_for_connection(True, 300)\<close> waits out the 300 ms (three sleeps)
  and returns \<^verbatim>\<open>False\<close>; with two sleeps' worth of fuel it is still waiting.
\<close>

theorem wait_for_connection_False_although_connected:
  "BLECentral_is_connected (BLECentral_init\<lparr>conn_handle := Some 64, tx_handle := Some 14,
       rx_handle := Some 16\<rparr>)
   \<and> BLECentral_wait_for_connection 4 0 (BLECentral_init\<lparr>conn_handle := Some 64,
       tx_handle := Some 14, rx_handle := Some 16\<rparr>) True 300 = Some False
   \<and> BLECentral_wait_for_connection 3 0 (BLECentral_init\<lparr>conn_handle := Some 64,
       tx_handle := Some 14, rx_handle := Some 16\<rparr>) True 300 = None"
proof -
  have w4: "wait_loop 4 0 0 300 = Some False"
    by code_simp
  have w3: "wait_loop 3 0 0 300 = None"
    by code_simp
  from w4 w3 show ?thesis
    by (simp add: BLECentral_wait_for_connection_def BLECentral_is_connected_def)
qed

end
